theory Spec2Isabelle
  imports Main "HOL-Library.Word"
begin

unbundle bit_operations_syntax

section \<open>Object representations\<close>

text \<open>
  The program writes and reads the raw object representation of an \<open>int\<close>, a
  \<open>double\<close> and a \<open>size_t\<close> (\<open>reinterpret_cast<const char*>(&x), sizeof(x)\<close>).
  The model is that of an LP64 platform: \<open>int\<close> is a 32-bit two's complement word in 4
  bytes, \<open>size_t\<close> a 64-bit unsigned word in 8 bytes, and a \<open>double\<close> is carried as its
  64-bit IEEE-754 bit pattern in 8 bytes. The program never computes with the \<open>double\<close>,
  it only copies its bytes, so the bit pattern is all that matters. The byte order is that
  of the host, a parameter of every function that touches memory.
\<close>

type_synonym byte = "8 word"

datatype endian = LittleEndian | BigEndian

fun le_bytes :: "nat \<Rightarrow> 'a::len word \<Rightarrow> byte list" where
  "le_bytes 0 w = []"
| "le_bytes (Suc n) w = ucast w # le_bytes n (drop_bit 8 w)"

fun le_word :: "byte list \<Rightarrow> 'a::len word" where
  "le_word [] = 0"
| "le_word (b # bs) = ucast b OR push_bit 8 (le_word bs)"

text \<open>The \<open>n\<close> bytes at the address of an object holding \<open>w\<close>, lowest address first.\<close>

definition object_bytes :: "endian \<Rightarrow> nat \<Rightarrow> 'a::len word \<Rightarrow> byte list" where
  "object_bytes e n w =
     (case e of LittleEndian \<Rightarrow> le_bytes n w | BigEndian \<Rightarrow> rev (le_bytes n w))"

text \<open>The value of an object whose bytes, lowest address first, are \<open>bs\<close>.\<close>

definition object_value :: "endian \<Rightarrow> byte list \<Rightarrow> 'a::len word" where
  "object_value e bs =
     (case e of LittleEndian \<Rightarrow> le_word bs | BigEndian \<Rightarrow> le_word (rev bs))"

section \<open>The Student struct\<close>

text \<open>
  \<open>struct Student { int id; std::string name; double gpa; }\<close>. The field \<open>id\<close> is
  written \<open>id'\<close> here, \<open>id\<close> being the identity function of HOL. A \<open>std::string\<close> is a
  sequence of bytes with an explicit length: a zero byte is an ordinary element.
\<close>

record Student =
  id' :: "32 word"
  name :: "byte list"
  gpa :: "64 word"

text \<open>The default constructor \<open>Student() : id(0), name(""), gpa(0.0)\<close>.\<close>

definition Student_default :: Student where
  "Student_default = \<lparr>id' = 0, name = [], gpa = 0\<rparr>"

text \<open>
  \<open>Student originalStudent(101, "Alice Smith", 3.85)\<close> of \<open>main\<close>. The name is given by
  its ASCII codes; \<open>0x400ECCCCCCCCCCCD\<close> is the binary64 nearest to 3.85 (sign 0, biased
  exponent \<open>0x400\<close>, fraction 0.925 rounded to 52 bits).
\<close>

definition originalStudent :: Student where
  "originalStudent =
     \<lparr>id' = 101,
      name = [0x41, 0x6C, 0x69, 0x63, 0x65, 0x20, 0x53, 0x6D, 0x69, 0x74, 0x68],
      gpa = 0x400ECCCCCCCCCCCD\<rparr>"

section \<open>Streams\<close>

text \<open>
  An output stream is the sequence of bytes it has accepted so far and whether it is still
  \<open>good()\<close>. \<open>os.write(s, n)\<close> appends the \<open>n\<close> bytes at \<open>s\<close> to a good stream and
  does nothing to one that is not good. The sink itself (a file, a string buffer) is
  outside the program and accepts every byte here.
\<close>

record ostream =
  written :: "byte list"
  ogood :: bool

definition ofstream_open :: ostream where
  "ofstream_open = \<lparr>written = [], ogood = True\<rparr>"

definition ostream_write :: "ostream \<Rightarrow> byte list \<Rightarrow> nat \<Rightarrow> ostream" where
  "ostream_write os s n = (if ogood os then os\<lparr>written := written os @ take n s\<rparr> else os)"

text \<open>
  An input stream is its whole content, the read position, and the three state flags.
  \<open>is.read(buf, n)\<close> on a stream that is not good sets \<open>failbit\<close> and stores nothing.
  On a good stream it stores the next \<open>min n available\<close> bytes at the start of the
  buffer, leaves the rest of the buffer as it was, advances the position by the number of
  bytes stored, and sets \<open>eofbit\<close> and \<open>failbit\<close> when fewer than \<open>n\<close> bytes were
  available. The second argument of \<open>istream_read\<close> is the buffer's content before the call,
  the second component of the result its content after.
\<close>

record istream =
  content :: "byte list"
  gpos :: nat
  eofbit :: bool
  failbit :: bool
  badbit :: bool

definition good :: "istream \<Rightarrow> bool" where
  "good ins = (\<not> eofbit ins \<and> \<not> failbit ins \<and> \<not> badbit ins)"

definition ifstream_open :: "byte list \<Rightarrow> istream" where
  "ifstream_open bs =
     \<lparr>content = bs, gpos = 0, eofbit = False, failbit = False, badbit = False\<rparr>"

definition istream_read :: "istream \<Rightarrow> byte list \<Rightarrow> nat \<Rightarrow> istream \<times> byte list" where
  "istream_read ins buf n =
     (if good ins then
        (let avail = drop (gpos ins) (content ins);
             k = min n (length avail);
             ins' = ins\<lparr>gpos := gpos ins + k\<rparr>
         in (if k < n then ins'\<lparr>eofbit := True, failbit := True\<rparr> else ins',
             take k avail @ drop k buf))
      else (ins\<lparr>failbit := True\<rparr>, buf))"

section \<open>std::string::resize\<close>

text \<open>
  \<open>s.resize(n)\<close> throws \<open>std::length_error\<close> when \<open>n\<close> exceeds \<open>max_size()\<close>, a
  constant of the library that is a parameter here. Otherwise it truncates to \<open>n\<close>
  bytes or appends zero bytes up to \<open>n\<close>.
\<close>

datatype error = LengthError

definition resize :: "nat \<Rightarrow> byte list \<Rightarrow> nat \<Rightarrow> error + byte list" where
  "resize max_size s n =
     (if max_size < n then Inl LengthError
      else Inr (take n s @ replicate (n - length s) 0))"

section \<open>serializeStudent and deserializeStudent\<close>

text \<open>
  \<open>serializeStudent(std::ostream& os, const Student& student)\<close>: four writes. The
  student is a \<open>const\<close> reference, the stream is the only object the function changes.
\<close>

definition serializeStudent :: "endian \<Rightarrow> ostream \<Rightarrow> Student \<Rightarrow> ostream" where
  "serializeStudent e os student =
     (let os1 = ostream_write os (object_bytes e 4 (id' student)) 4;
          os2 = ostream_write os1 (object_bytes e 8 (gpa student)) 8;
          nameLength = (word_of_nat (length (name student)) :: 64 word);
          os3 = ostream_write os2 (object_bytes e 8 nameLength) 8
      in ostream_write os3 (name student) (unat nameLength))"

text \<open>
  The caller's view of the call \<open>serializeStudent(os, student)\<close>: both objects live in
  the caller, the call replaces the stream by the one the function leaves.
\<close>

record caller_objects =
  the_stream :: ostream
  the_student :: Student

definition call_serializeStudent :: "endian \<Rightarrow> caller_objects \<Rightarrow> caller_objects" where
  "call_serializeStudent e c =
     c\<lparr>the_stream := serializeStudent e (the_stream c) (the_student c)\<rparr>"

text \<open>
  \<open>deserializeStudent(std::istream& is, Student& student)\<close>: three reads into the
  memory of \<open>student.id\<close>, \<open>student.gpa\<close> and the local \<open>nameLength\<close>, then
  \<open>student.name.resize(nameLength)\<close> and a read into the string's buffer. No read is
  checked. \<open>nameLength\<close> is declared without an initialiser: \<open>nl0\<close> stands for whatever
  the variable holds before the read. The function returns nothing; the result here is
  the exception that left it, if any, and the two objects it was given by reference as
  it leaves them.
\<close>

definition deserializeStudent ::
  "endian \<Rightarrow> nat \<Rightarrow> 64 word \<Rightarrow> istream \<Rightarrow> Student \<Rightarrow> error option \<times> istream \<times> Student" where
  "deserializeStudent e max_size nl0 ins student =
     (let (ins1, b1) = istream_read ins (object_bytes e 4 (id' student)) 4;
          student1 = student\<lparr>id' := object_value e b1\<rparr>;
          (ins2, b2) = istream_read ins1 (object_bytes e 8 (gpa student1)) 8;
          student2 = student1\<lparr>gpa := object_value e b2\<rparr>;
          (ins3, b3) = istream_read ins2 (object_bytes e 8 nl0) 8;
          nameLength = (object_value e b3 :: 64 word)
      in case resize max_size (name student2) (unat nameLength) of
           Inl err \<Rightarrow> (Some err, ins3, student2)
         | Inr resized \<Rightarrow>
             (let (ins4, b4) = istream_read ins3 resized (unat nameLength)
              in (None, ins4, student2\<lparr>name := b4\<rparr>)))"

text \<open>
  The bytes \<open>serializeStudent\<close> appends to a fresh stream, and \<open>deserializeStudent\<close>
  run on a stream opened on given bytes: the two halves of \<open>main\<close>.
\<close>

definition encode :: "endian \<Rightarrow> Student \<Rightarrow> byte list" where
  "encode e student = written (serializeStudent e ofstream_open student)"

definition decode ::
  "endian \<Rightarrow> nat \<Rightarrow> 64 word \<Rightarrow> byte list \<Rightarrow> Student \<Rightarrow> error option \<times> istream \<times> Student" where
  "decode e max_size nl0 bs student =
     deserializeStudent e max_size nl0 (ifstream_open bs) student"

section \<open>Bytes of words\<close>

lemma length_le_bytes: "length (le_bytes n w) = n"
  by (induction n arbitrary: w) auto

lemma le_word_le_bytes: "le_word (le_bytes n w) = (take_bit (8 * n) w :: 'a::len word)"
proof (induction n arbitrary: w)
  case 0
  show ?case by simp
next
  case (Suc n)
  have "ucast (ucast w :: byte) OR push_bit 8 (take_bit (8 * n) (drop_bit 8 w)) =
        take_bit (8 * Suc n) w"
    by (rule bit_eqI) (auto simp add: bit_simps)
  then show ?case by (simp add: Suc)
qed

lemma length_object_bytes: "length (object_bytes e n w) = n"
  by (cases e) (simp_all add: object_bytes_def length_le_bytes)

lemma object_value_bytes:
  "LENGTH('a) \<le> 8 * n \<Longrightarrow> object_value e (object_bytes e n w) = (w :: 'a::len word)"
  by (cases e) (simp_all add: object_bytes_def object_value_def le_word_le_bytes take_bit_word_eq_self)

lemma object_value_bytes32: "object_value e (object_bytes e 4 w) = (w :: 32 word)"
  by (rule object_value_bytes) simp

lemma object_value_bytes64: "object_value e (object_bytes e 8 w) = (w :: 64 word)"
  by (rule object_value_bytes) simp

lemma ostream_write_good:
  "ogood os \<Longrightarrow> ostream_write os s n = os\<lparr>written := written os @ take n s\<rparr>"
  by (simp add: ostream_write_def)

lemma serializeStudent_good:
  "ogood os \<Longrightarrow>
   serializeStudent e os s =
     os\<lparr>written := written os @ object_bytes e 4 (id' s) @ object_bytes e 8 (gpa s) @
        object_bytes e 8 (word_of_nat (length (name s)) :: 64 word) @
        take (unat (word_of_nat (length (name s)) :: 64 word)) (name s)\<rparr>"
  by (simp add: serializeStudent_def Let_def ostream_write_good length_object_bytes)

lemma serializeStudent_not_good: "\<not> ogood os \<Longrightarrow> serializeStudent e os s = os"
  by (simp add: serializeStudent_def Let_def ostream_write_def)

lemma unat_name_length:
  "unat (word_of_nat (length xs) :: 64 word) = length xs" if "length xs < 2 ^ 64"
proof -
  have "length xs < 2 ^ LENGTH(64)" using that by simp
  then show ?thesis by (simp only: unat_of_nat mod_less)
qed

lemma encode_layout:
  "encode e s = object_bytes e 4 (id' s) @ object_bytes e 8 (gpa s) @
        object_bytes e 8 (word_of_nat (length (name s)) :: 64 word) @
        take (unat (word_of_nat (length (name s)) :: 64 word)) (name s)"
  by (simp add: encode_def serializeStudent_good ofstream_open_def)

lemma istream_read_enough:
  assumes "good ins" "gpos ins + n \<le> length (content ins)" "length buf = n"
  shows "istream_read ins buf n =
           (ins\<lparr>gpos := gpos ins + n\<rparr>, take n (drop (gpos ins) (content ins)))"
  using assms by (simp add: istream_read_def Let_def min_def)

lemma good_gpos_update: "good (ins\<lparr>gpos := p\<rparr>) = good ins"
  by (simp add: good_def)

lemma deserializeStudent_enough:
  fixes ins :: istream and e :: endian
  defines "bs \<equiv> drop (gpos ins) (content ins)"
  defines "n \<equiv> unat (object_value e (take 8 (drop 12 bs)) :: 64 word)"
  assumes g: "good ins" and len: "20 + n \<le> length bs" and mx: "n \<le> max_size"
  shows "deserializeStudent e max_size nl0 ins s =
           (None, ins\<lparr>gpos := gpos ins + (20 + n)\<rparr>,
            \<lparr>id' = object_value e (take 4 bs), name = take n (drop 20 bs),
             gpa = object_value e (take 8 (drop 4 bs))\<rparr>)"
proof -
  have L: "gpos ins + 20 + n \<le> length (content ins)"
    using len by (simp add: bs_def)
  have r1: "istream_read ins (object_bytes e 4 (id' s)) 4 =
              (ins\<lparr>gpos := gpos ins + 4\<rparr>, take 4 bs)"
    using g L by (simp add: istream_read_enough length_object_bytes bs_def)
  have r2: "istream_read (ins\<lparr>gpos := gpos ins + 4\<rparr>) (object_bytes e 8 g0) 8 =
              (ins\<lparr>gpos := gpos ins + 12\<rparr>, take 8 (drop 4 bs))" for g0 :: "64 word"
    using g L by (simp add: istream_read_enough length_object_bytes bs_def good_gpos_update add.commute)
  have r3: "istream_read (ins\<lparr>gpos := gpos ins + 12\<rparr>) (object_bytes e 8 nl0) 8 =
              (ins\<lparr>gpos := gpos ins + 20\<rparr>, take 8 (drop 12 bs))"
    using g L by (simp add: istream_read_enough length_object_bytes bs_def good_gpos_update add.commute)
  have r4: "istream_read (ins\<lparr>gpos := gpos ins + 20\<rparr>) buf n =
              (ins\<lparr>gpos := gpos ins + (20 + n)\<rparr>, take n (drop 20 bs))" if "length buf = n" for buf
    using g L that by (simp add: istream_read_enough bs_def good_gpos_update add.commute add.assoc)
  have rs: "resize max_size xs n = Inr (take n xs @ replicate (n - length xs) 0)" for xs
    using mx by (simp add: resize_def)
  show ?thesis
    unfolding deserializeStudent_def
    by (simp add: r1 r2 r3 rs r4 n_def [symmetric])
qed

lemma encode_valid:
  assumes "length (name r) < 2 ^ 64"
  shows "encode e r = object_bytes e 4 (id' r) @ object_bytes e 8 (gpa r) @
           object_bytes e 8 (word_of_nat (length (name r)) :: 64 word) @ name r"
  using assms by (simp add: encode_layout unat_name_length)

lemma length_encode:
  assumes "length (name r) < 2 ^ 64"
  shows "length (encode e r) = 20 + length (name r)"
  using assms by (simp add: encode_valid length_object_bytes)

lemma deserializeStudent_encoded:
  assumes g: "good ins"
    and bs: "drop (gpos ins) (content ins) = encode e r @ rest"
    and mx: "length (name r) \<le> max_size"
    and sz: "length (name r) < 2 ^ 64"
  shows "deserializeStudent e max_size nl0 ins s =
           (None, ins\<lparr>gpos := gpos ins + (20 + length (name r))\<rparr>, r)"
proof -
  let ?bs = "drop (gpos ins) (content ins)"
  have E: "?bs = object_bytes e 4 (id' r) @ object_bytes e 8 (gpa r) @
           object_bytes e 8 (word_of_nat (length (name r)) :: 64 word) @ name r @ rest"
    using bs sz by (simp add: encode_valid)
  have p: "take 8 (drop 12 ?bs) = object_bytes e 8 (word_of_nat (length (name r)) :: 64 word)"
    by (simp add: E length_object_bytes)
  have n: "unat (object_value e (take 8 (drop 12 ?bs)) :: 64 word) = length (name r)"
    using sz by (simp only: p object_value_bytes64 unat_name_length)
  have i: "take 4 ?bs = object_bytes e 4 (id' r)"
    by (simp add: E length_object_bytes)
  have s: "take 8 (drop 4 ?bs) = object_bytes e 8 (gpa r)"
    by (simp add: E length_object_bytes)
  have nm: "take (length (name r)) (drop 20 ?bs) = name r"
    by (simp add: E length_object_bytes)
  have len: "20 + length (name r) \<le> length ?bs"
    unfolding E by (simp add: length_object_bytes)
  show ?thesis
    using deserializeStudent_enough [of ins e max_size nl0 s] g len mx
    by (simp only: n i s nm object_value_bytes32 object_value_bytes64) simp
qed

lemma decode_encoded:
  assumes mx: "length (name r) \<le> max_size" and sz: "length (name r) < 2 ^ 64"
  shows "decode e max_size nl0 (encode e r @ rest) s =
           (None, (ifstream_open (encode e r @ rest))\<lparr>gpos := 20 + length (name r)\<rparr>, r)"
  using deserializeStudent_encoded [of "ifstream_open (encode e r @ rest)" e r rest max_size nl0 s] mx sz
  by (simp add: decode_def ifstream_open_def good_def)

section \<open>Reads on any good stream\<close>

lemma le_bytes_numeral:
  "le_bytes (numeral k) w = ucast w # le_bytes (pred_numeral k) (drop_bit 8 w)"
  by (simp add: numeral_eq_Suc)





section \<open>Round trip\<close>

text \<open>
  C1. For every Student whose name fits a \<open>std::string\<close> (at most \<open>max_size\<close> bytes,
  fewer than \<open>2 ^ 64\<close>), whatever its id, its score bits and the bytes of its name,
  deserialising the bytes that serialising it produced, into any destination
  Student, raises nothing, leaves the stream good, and leaves the destination equal to the
  Student field for field; serialising the result gives the same bytes again.
\<close>

theorem roundtrip_fidelity:
  assumes "length (name r) \<le> max_size" and "length (name r) < 2 ^ 64"
  shows "fst (decode e max_size nl0 (encode e r) s0) = None \<and>
         snd (snd (decode e max_size nl0 (encode e r) s0)) = r \<and>
         good (fst (snd (decode e max_size nl0 (encode e r) s0))) \<and>
         encode e (snd (snd (decode e max_size nl0 (encode e r) s0))) = encode e r"
  using decode_encoded [OF assms, of e nl0 "[]" s0]
  by (simp add: good_def ifstream_open_def)

theorem roundtrip_fidelity_witness:
  "length (name \<lparr>id' = - 5, name = [0x41, 0, 0xC3, 0xA9], gpa = 0xBFE0000000000000\<rparr>)
     \<le> (2 ^ 62 :: nat) \<and>
   length (name \<lparr>id' = - 5, name = [0x41, 0, 0xC3, 0xA9], gpa = 0xBFE0000000000000\<rparr>)
     < (2 ^ 64 :: nat) \<and>
   snd (snd (decode BigEndian (2 ^ 62) 7
     (encode BigEndian \<lparr>id' = - 5, name = [0x41, 0, 0xC3, 0xA9], gpa = 0xBFE0000000000000\<rparr>)
     Student_default))
   = \<lparr>id' = - 5, name = [0x41, 0, 0xC3, 0xA9], gpa = 0xBFE0000000000000\<rparr>"
  using roundtrip_fidelity [where r = "\<lparr>id' = - 5, name = [0x41, 0, 0xC3, 0xA9], gpa = 0xBFE0000000000000\<rparr>"
      and max_size = "2 ^ 62" and e = BigEndian and ?nl0.0 = 7 and ?s0.0 = Student_default]
  by simp

section \<open>Truncated input\<close>




section \<open>The length prefix\<close>

text \<open>
  C3. On a good stream that holds, from the read position, the 20 header bytes and as
  many further bytes as the length prefix \<open>n\<close> says (with \<open>n\<close> a length a string can
  have), \<open>deserializeStudent\<close> raises nothing and leaves a name of exactly \<open>n\<close> bytes:
  the \<open>n\<close> bytes that follow the header, whatever their values, a zero byte included.
\<close>

theorem length_prefix_fidelity:
  fixes ins :: istream and e :: endian
  defines "n \<equiv> unat (object_value e (take 8 (drop (gpos ins + 12) (content ins))) :: 64 word)"
  assumes "good ins" and "gpos ins + 20 + n \<le> length (content ins)" and "n \<le> max_size"
  shows "fst (deserializeStudent e max_size nl0 ins s) = None \<and>
         length (name (snd (snd (deserializeStudent e max_size nl0 ins s)))) = n \<and>
         name (snd (snd (deserializeStudent e max_size nl0 ins s))) =
           take n (drop (gpos ins + 20) (content ins))"
proof -
  have n': "unat (object_value e (take 8 (drop 12 (drop (gpos ins) (content ins)))) :: 64 word) = n"
    by (simp add: n_def add.commute)
  have "deserializeStudent e max_size nl0 ins s =
          (None, ins\<lparr>gpos := gpos ins + (20 + n)\<rparr>,
           \<lparr>id' = object_value e (take 4 (drop (gpos ins) (content ins))),
            name = take n (drop 20 (drop (gpos ins) (content ins))),
            gpa = object_value e (take 8 (drop 4 (drop (gpos ins) (content ins))))\<rparr>)"
    using deserializeStudent_enough [of ins e max_size nl0 s] assms(2-) unfolding n' by simp
  then show ?thesis using assms(3) by (simp add: add.commute)
qed

theorem length_prefix_fidelity_witness:
  "good (ifstream_open [1, 0, 0, 0, 0, 0, 0, 0, 0, 0, 0, 0, 3, 0, 0, 0, 0, 0, 0, 0, 0x41, 0, 0x42, 9]) \<and>
   name (snd (snd (deserializeStudent LittleEndian 100 5
     (ifstream_open [1, 0, 0, 0, 0, 0, 0, 0, 0, 0, 0, 0, 3, 0, 0, 0, 0, 0, 0, 0, 0x41, 0, 0x42, 9])
     originalStudent))) = [0x41, 0, 0x42]"
  using length_prefix_fidelity [where ins = "ifstream_open [1, 0, 0, 0, 0, 0, 0, 0, 0, 0, 0, 0, 3, 0, 0, 0, 0, 0, 0, 0, 0x41, 0, 0x42, 9]"
      and e = LittleEndian and max_size = 100 and ?nl0.0 = 5 and s = originalStudent]
  by (simp add: ifstream_open_def good_def object_value_def)

section \<open>Layout\<close>



text \<open>
  C5. A Student with an empty name serialises to exactly \<open>4 + 8 + 8\<close> bytes, and
  deserialising them raises nothing, leaves the stream good and gives back the Student,
  with an empty name. The length 0 is within every \<open>max_size\<close>.
\<close>

theorem empty_name_boundary:
  "length (encode e (r\<lparr>name := []\<rparr>)) = 4 + 8 + 8 \<and>
   decode e max_size nl0 (encode e (r\<lparr>name := []\<rparr>)) s0 =
     (None, (ifstream_open (encode e (r\<lparr>name := []\<rparr>)))\<lparr>gpos := 4 + 8 + 8\<rparr>,
      r\<lparr>name := []\<rparr>) \<and>
   good (fst (snd (decode e max_size nl0 (encode e (r\<lparr>name := []\<rparr>)) s0))) \<and>
   name (snd (snd (decode e max_size nl0 (encode e (r\<lparr>name := []\<rparr>)) s0))) = []"
proof -
  have d: "decode e max_size nl0 (encode e (r\<lparr>name := []\<rparr>)) s0 =
     (None, (ifstream_open (encode e (r\<lparr>name := []\<rparr>)))\<lparr>gpos := 4 + 8 + 8\<rparr>,
      r\<lparr>name := []\<rparr>)"
    using decode_encoded [of "r\<lparr>name := []\<rparr>" max_size e nl0 "[]" s0] by simp
  have l: "length (encode e (r\<lparr>name := []\<rparr>)) = 4 + 8 + 8"
    by (simp add: length_encode)
  show ?thesis
    unfolding d using l by (simp add: good_def ifstream_open_def)
qed

section \<open>Frame properties\<close>

text \<open>
  C6. On a good stream that holds, from the read position, a serialised Student followed
  by any further bytes, \<open>deserializeStudent\<close> advances the read position by exactly
  \<open>4 + 8 + 8\<close> plus the length of the name and changes nothing else of the stream: its
  content and flags are as before, and the bytes from the new position on are the
  trailing bytes.
\<close>

theorem decode_consumes_exactly:
  assumes "good ins"
    and "drop (gpos ins) (content ins) = encode e r @ rest"
    and "length (name r) \<le> max_size" and "length (name r) < 2 ^ 64"
  shows "deserializeStudent e max_size nl0 ins s =
           (None, ins\<lparr>gpos := gpos ins + (4 + 8 + 8 + length (name r))\<rparr>, r) \<and>
         drop (gpos (fst (snd (deserializeStudent e max_size nl0 ins s))))
              (content (fst (snd (deserializeStudent e max_size nl0 ins s)))) = rest \<and>
         good (fst (snd (deserializeStudent e max_size nl0 ins s)))"
proof -
  have d: "deserializeStudent e max_size nl0 ins s =
           (None, ins\<lparr>gpos := gpos ins + (4 + 8 + 8 + length (name r))\<rparr>, r)"
    using deserializeStudent_encoded [OF assms, of nl0 s] by simp
  have "drop (gpos ins + (20 + length (name r))) (content ins) =
        drop (20 + length (name r)) (drop (gpos ins) (content ins))"
    by (simp add: add.commute)
  also have "\<dots> = rest"
    using assms(4) by (simp add: assms(2) length_encode)
  finally show ?thesis
    unfolding d using assms(1) by (simp add: good_gpos_update)
qed

theorem decode_consumes_exactly_witness:
  "good (ifstream_open (encode BigEndian originalStudent @ [7, 8, 9])) \<and>
   length (name originalStudent) \<le> (100::nat) \<and>
   length (name originalStudent) < (2 ^ 64 :: nat) \<and>
   deserializeStudent BigEndian 100 0
       (ifstream_open (encode BigEndian originalStudent @ [7, 8, 9])) Student_default =
     (None, (ifstream_open (encode BigEndian originalStudent @ [7, 8, 9]))\<lparr>gpos := 31\<rparr>,
      originalStudent) \<and>
   drop 31 (encode BigEndian originalStudent @ [7, 8, 9]) = [7, 8, 9]"
  using decode_consumes_exactly [where ins = "ifstream_open (encode BigEndian originalStudent @ [7, 8, 9])"
      and e = BigEndian and r = originalStudent and rest = "[7, 8, 9]" and max_size = 100
      and ?nl0.0 = 0 and s = Student_default]
  by (simp add: originalStudent_def good_def ifstream_open_def encode_layout
      object_bytes_def le_bytes_numeral)

text \<open>
  C7. The bytes \<open>serializeStudent\<close> appends to a good stream are a function of the
  Student alone: the same bytes on any two streams, whatever they held before, and the
  same bytes again when the Student is serialised a second time to the same stream.
\<close>

theorem encode_deterministic:
  assumes "ogood os1" and "ogood os2"
  shows "written (serializeStudent e os1 r) = written os1 @ encode e r \<and>
         written (serializeStudent e os2 r) = written os2 @ encode e r \<and>
         written (serializeStudent e (serializeStudent e os1 r) r) =
           written os1 @ encode e r @ encode e r"
  using assms by (simp add: serializeStudent_good encode_layout)

theorem encode_deterministic_witness:
  "ogood ofstream_open \<and> ogood \<lparr>written = [1, 2], ogood = True\<rparr> \<and>
   written (serializeStudent LittleEndian ofstream_open originalStudent) =
     encode LittleEndian originalStudent \<and>
   written (serializeStudent LittleEndian \<lparr>written = [1, 2], ogood = True\<rparr> originalStudent) =
     [1, 2] @ encode LittleEndian originalStudent"
  using encode_deterministic [where ?os1.0 = ofstream_open
      and ?os2.0 = "\<lparr>written = [1, 2], ogood = True\<rparr>" and e = LittleEndian
      and r = originalStudent]
  by (simp add: ofstream_open_def)

text \<open>
  C8. A call of \<open>serializeStudent\<close> leaves the caller's Student as it was. Its only
  effect is on the stream: the bytes written before stay, the serialised Student is
  appended to a good stream and nothing to one that is not good, and the state of the
  stream does not change.
\<close>

theorem encode_effect_free:
  "the_student (call_serializeStudent e c) = the_student c \<and>
   written (the_stream (call_serializeStudent e c)) =
     written (the_stream c) @ (if ogood (the_stream c) then encode e (the_student c) else []) \<and>
   ogood (the_stream (call_serializeStudent e c)) = ogood (the_stream c)"
  by (cases "ogood (the_stream c)")
     (simp_all add: call_serializeStudent_def serializeStudent_good serializeStudent_not_good
       encode_layout)

section \<open>The scenario of main\<close>

text \<open>
  C9. Serialising \<open>Student(101, "Alice Smith", 3.85)\<close> gives \<open>4 + 8 + 8 + 11\<close> bytes,
  and deserialising them, where a string may have 11 bytes, raises nothing and gives back
  id 101, the name \<open>Alice Smith\<close> and the score bits of 3.85.
\<close>

theorem concrete_scenario:
  assumes "11 \<le> max_size"
  shows "length (encode e originalStudent) = 4 + 8 + 8 + 11 \<and>
         decode e max_size nl0 (encode e originalStudent) s0 =
           (None, (ifstream_open (encode e originalStudent))\<lparr>gpos := 4 + 8 + 8 + 11\<rparr>,
            originalStudent) \<and>
         snd (snd (decode e max_size nl0 (encode e originalStudent) s0)) =
           \<lparr>id' = 101,
            name = [0x41, 0x6C, 0x69, 0x63, 0x65, 0x20, 0x53, 0x6D, 0x69, 0x74, 0x68],
            gpa = 0x400ECCCCCCCCCCCD\<rparr>"
proof -
  have n: "length (name originalStudent) = 11"
    by (simp add: originalStudent_def)
  have sz: "length (name originalStudent) < 2 ^ 64"
    by (simp add: n)
  have mx: "length (name originalStudent) \<le> max_size"
    using assms by (simp add: n)
  have d: "decode e max_size nl0 (encode e originalStudent) s0 =
           (None, (ifstream_open (encode e originalStudent))\<lparr>gpos := 4 + 8 + 8 + 11\<rparr>,
            originalStudent)"
    using decode_encoded [OF mx sz, of e nl0 "[]" s0] by (simp add: n)
  have l: "length (encode e originalStudent) = 4 + 8 + 8 + 11"
    using length_encode [OF sz, of e] by (simp add: n)
  show ?thesis
    unfolding d using l by (simp add: originalStudent_def)
qed

theorem concrete_scenario_witness:
  "(11::nat) \<le> 2 ^ 62 \<and>
   encode LittleEndian originalStudent =
     [101, 0, 0, 0, 0xCD, 0xCC, 0xCC, 0xCC, 0xCC, 0xCC, 0x0E, 0x40, 11, 0, 0, 0, 0, 0, 0, 0,
      0x41, 0x6C, 0x69, 0x63, 0x65, 0x20, 0x53, 0x6D, 0x69, 0x74, 0x68] \<and>
   length (encode LittleEndian originalStudent) = 31 \<and>
   snd (snd (decode LittleEndian (2 ^ 62) 0 (encode LittleEndian originalStudent) Student_default))
     = originalStudent"
  using concrete_scenario [where max_size = "2 ^ 62" and e = LittleEndian and ?nl0.0 = 0
      and ?s0.0 = Student_default]
  by (simp add: originalStudent_def encode_layout object_bytes_def le_bytes_numeral)

section \<open>The destination's earlier content\<close>

text \<open>
  C10. On a good stream that holds the header and the announced name bytes, the outcome
  of \<open>deserializeStudent\<close> is the same for any two destination Students: no field of
  the destination survives or influences the result.
\<close>

theorem decode_independent_of_destination:
  fixes ins :: istream and e :: endian
  defines "n \<equiv> unat (object_value e (take 8 (drop (gpos ins + 12) (content ins))) :: 64 word)"
  assumes "good ins" and "gpos ins + 20 + n \<le> length (content ins)" and "n \<le> max_size"
  shows "deserializeStudent e max_size nl0 ins s1 = deserializeStudent e max_size nl0 ins s2"
proof -
  have n': "unat (object_value e (take 8 (drop 12 (drop (gpos ins) (content ins)))) :: 64 word) = n"
    by (simp add: n_def add.commute)
  have "deserializeStudent e max_size nl0 ins s =
          (None, ins\<lparr>gpos := gpos ins + (20 + n)\<rparr>,
           \<lparr>id' = object_value e (take 4 (drop (gpos ins) (content ins))),
            name = take n (drop 20 (drop (gpos ins) (content ins))),
            gpa = object_value e (take 8 (drop 4 (drop (gpos ins) (content ins))))\<rparr>)" for s
    using deserializeStudent_enough [of ins e max_size nl0 s] assms(2-) unfolding n' by simp
  then show ?thesis by simp
qed

theorem decode_independent_of_destination_witness:
  "good (ifstream_open (encode LittleEndian originalStudent)) \<and>
   deserializeStudent LittleEndian 100 0 (ifstream_open (encode LittleEndian originalStudent))
     Student_default =
   deserializeStudent LittleEndian 100 0 (ifstream_open (encode LittleEndian originalStudent))
     \<lparr>id' = 7, name = [1, 2, 3, 4, 5, 6, 7, 8, 9, 10, 11, 12, 13], gpa = 99\<rparr>"
  using decode_independent_of_destination [where ins = "ifstream_open (encode LittleEndian originalStudent)"
      and e = LittleEndian and max_size = 100 and ?nl0.0 = 0 and ?s1.0 = Student_default
      and ?s2.0 = "\<lparr>id' = 7, name = [1, 2, 3, 4, 5, 6, 7, 8, 9, 10, 11, 12, 13], gpa = 99\<rparr>"]
  by (simp add: originalStudent_def good_def ifstream_open_def encode_layout
      object_value_def object_bytes_def le_bytes_numeral)

end
